theory Spec2Isabelle
  imports Main
begin

section \<open>Data model of the chat store\<close>

text \<open>
  The store lives in \<^verbatim>\<open>src/contexts/ChatContext.tsx\<close>; the display-name helper in
  \<^verbatim>\<open>src/utils/chatUtils.ts\<close>. JavaScript numbers that carry identifiers and
  millisecond clock readings are integers here.

  A message id is a number or (in a realtime payload) a string; the reducer tests
  \<^verbatim>\<open>typeof id\<close>, so both shapes are kept.
\<close>

datatype js_id = NumId int | StrId string

text \<open>
  A timestamp is an ISO string that the reducer only ever reads through
  \<^verbatim>\<open>new Date(ts).getTime()\<close>. It is represented by that reading: \<open>Some ms\<close>, or
  \<open>None\<close> when the string does not parse (the reading is NaN).
\<close>

type_synonym timestamp = "int option"

record User =
  u_id :: int
  u_username :: string
  u_createdAt :: string

record ChatParticipant =
  p_chatId :: int
  p_userId :: int
  p_joinedAt :: string
  p_user :: "User option"
  p_username :: "string option"

datatype ChatType = Direct | Group

record Chat =
  c_id :: int
  c_name :: string
  c_type :: ChatType
  c_createdAt :: string
  c_participants :: "ChatParticipant list"

record Message =
  m_id :: js_id
  m_chatId :: int
  m_senderId :: int
  m_sender :: "User option"
  m_content :: string
  m_timestamp :: timestamp
  m_status :: string

text \<open>The lightweight realtime payload: \<^verbatim>\<open>senderUsername\<close> instead of a \<^verbatim>\<open>sender\<close> object.\<close>

record MessageData =
  d_id :: js_id
  d_chatId :: int
  d_senderId :: int
  d_senderUsername :: "string option"
  d_content :: string
  d_timestamp :: timestamp
  d_status :: string

text \<open>\<^verbatim>\<open>ADD_MESSAGE\<close> takes either shape and tells them apart by \<^verbatim>\<open>'sender' in message\<close>.\<close>

datatype MessagePayload = Full Message | Event MessageData

text \<open>\<^verbatim>\<open>Partial<Message>\<close>: every field optional.\<close>

record MessageUpdates =
  up_id :: "js_id option"
  up_chatId :: "int option"
  up_senderId :: "int option"
  up_sender :: "User option option"
  up_content :: "string option"
  up_timestamp :: "timestamp option"
  up_status :: "string option"

record OnlineUser =
  o_userId :: int
  o_username :: string

record TypingUser =
  t_userId :: int
  t_username :: string
  t_isTyping :: bool

record ChatState =
  chats :: "Chat list"
  activeChat :: "Chat option"
  messages :: "int \<rightharpoonup> Message list"
  onlineUsers :: "OnlineUser list"
  typingUsers :: "int \<rightharpoonup> TypingUser list"
  unreadCounts :: "int \<rightharpoonup> int"
  isConnected :: bool
  isLoading :: bool
  messageUpdateTrigger :: int

datatype ChatAction =
    SET_CHATS "Chat list"
  | SET_ACTIVE_CHAT "Chat option"
  | ADD_CHAT Chat
  | REMOVE_CHAT int
  | SET_MESSAGES int "Message list"
  | ADD_MESSAGE MessagePayload
  | UPDATE_MESSAGE int int MessageUpdates
  | SET_ONLINE_USERS "OnlineUser list"
  | USER_ONLINE OnlineUser
  | USER_OFFLINE int
  | SET_TYPING int "TypingUser list"
  | INCREMENT_UNREAD int
  | CLEAR_UNREAD int
  | SET_CONNECTION_STATUS bool
  | SET_LOADING bool

definition initialState :: ChatState where
  "initialState =
     \<lparr> chats = [], activeChat = None, messages = Map.empty, onlineUsers = [],
       typingUsers = Map.empty, unreadCounts = Map.empty, isConnected = False,
       isLoading = True, messageUpdateTrigger = 0 \<rparr>"

text \<open>An error thrown by the gateway, carried as a value.\<close>

datatype error = Error string

section \<open>JavaScript helpers\<close>

text \<open>\<^verbatim>\<open>`User ${n}`\<close>: the decimal rendering of an integer.\<close>

fun digitsOf :: "nat \<Rightarrow> string" where
  "digitsOf n =
     (if n < 10 then [''0123456789'' ! n]
      else digitsOf (n div 10) @ [''0123456789'' ! (n mod 10)])"

declare digitsOf.simps [simp del]

definition numberToString :: "int \<Rightarrow> string" where
  "numberToString i = (if i < 0 then CHR ''-'' # digitsOf (nat (- i)) else digitsOf (nat i))"

definition userPlaceholder :: "int \<Rightarrow> string" where
  "userPlaceholder senderId = ''User '' @ numberToString senderId"

text \<open>\<^verbatim>\<open>a || b\<close> on possibly missing strings: a missing or empty string is falsy.\<close>

definition truthy :: "string option \<Rightarrow> bool" where
  "truthy v = (case v of None \<Rightarrow> False | Some s \<Rightarrow> s \<noteq> [])"

definition js_or :: "string option \<Rightarrow> string option \<Rightarrow> string option" where
  "js_or a b = (if truthy a then a else b)"

definition js_or_default :: "string option \<Rightarrow> string \<Rightarrow> string" where
  "js_or_default a d = (case a of None \<Rightarrow> d | Some s \<Rightarrow> if s = [] then d else s)"

text \<open>\<^verbatim>\<open>m[k] || []\<close> and \<^verbatim>\<open>m[k] || 0\<close>.\<close>

definition listOrEmpty :: "'a list option \<Rightarrow> 'a list" where
  "listOrEmpty v = (case v of None \<Rightarrow> [] | Some xs \<Rightarrow> xs)"

definition numberOrZero :: "int option \<Rightarrow> int" where
  "numberOrZero v = (case v of None \<Rightarrow> 0 | Some n \<Rightarrow> n)"

section \<open>The reducer\<close>

text \<open>
  Lines 83--104: the payload becomes a \<^verbatim>\<open>Message\<close>. A string id is replaced by
  \<^verbatim>\<open>Date.now()\<close> (the argument \<open>now\<close>); a missing sender is synthesised.
\<close>

definition toMessage :: "int \<Rightarrow> MessagePayload \<Rightarrow> Message" where
  "toMessage now payload =
     (case payload of
        Full m \<Rightarrow> m
      | Event d \<Rightarrow>
          \<lparr> m_id = (case d_id d of StrId _ \<Rightarrow> NumId now | NumId n \<Rightarrow> NumId n),
            m_chatId = d_chatId d,
            m_senderId = d_senderId d,
            m_sender = Some \<lparr> u_id = d_senderId d,
                              u_username = js_or_default (d_senderUsername d)
                                             (userPlaceholder (d_senderId d)),
                              u_createdAt = [] \<rparr>,
            m_content = d_content d,
            m_timestamp = d_timestamp d,
            m_status = d_status d \<rparr>)"

definition ensureSender :: "Message \<Rightarrow> Message" where
  "ensureSender m =
     (case m_sender m of
        Some _ \<Rightarrow> m
      | None \<Rightarrow> m\<lparr> m_sender := Some \<lparr> u_id = m_senderId m,
                                      u_username = userPlaceholder (m_senderId m),
                                      u_createdAt = [] \<rparr> \<rparr>)"

definition payloadChatId :: "MessagePayload \<Rightarrow> int" where
  "payloadChatId payload = (case payload of Full m \<Rightarrow> m_chatId m | Event d \<Rightarrow> d_chatId d)"

text \<open>\<^verbatim>\<open>Math.abs(getTime(a) - getTime(b)) < 500\<close>; a comparison with NaN is false.\<close>

definition timeClose :: "timestamp \<Rightarrow> timestamp \<Rightarrow> bool" where
  "timeClose a b =
     (case a of None \<Rightarrow> False
      | Some x \<Rightarrow> (case b of None \<Rightarrow> False | Some y \<Rightarrow> \<bar>x - y\<bar> < 500))"

text \<open>Lines 108--121: the callback given to \<^verbatim>\<open>currentMessages.some\<close>.\<close>

definition isPositiveNumber :: "js_id \<Rightarrow> bool" where
  "isPositiveNumber i = (case i of NumId n \<Rightarrow> n > 0 | StrId _ \<Rightarrow> False)"

definition isDuplicateOf :: "Message \<Rightarrow> Message \<Rightarrow> bool" where
  "isDuplicateOf newMessage msg =
     (if isPositiveNumber (m_id msg) \<and> isPositiveNumber (m_id newMessage)
      then m_id msg = m_id newMessage
      else (let sameContent = (m_senderId msg = m_senderId newMessage
                               \<and> m_content msg = m_content newMessage);
                close = timeClose (m_timestamp msg) (m_timestamp newMessage)
            in sameContent \<and> close))"

definition messageExists :: "Message list \<Rightarrow> Message \<Rightarrow> bool" where
  "messageExists currentMessages newMessage = list_ex (isDuplicateOf newMessage) currentMessages"

definition applyUpdates :: "MessageUpdates \<Rightarrow> Message \<Rightarrow> Message" where
  "applyUpdates updates msg =
     \<lparr> m_id = (case up_id updates of None \<Rightarrow> m_id msg | Some v \<Rightarrow> v),
       m_chatId = (case up_chatId updates of None \<Rightarrow> m_chatId msg | Some v \<Rightarrow> v),
       m_senderId = (case up_senderId updates of None \<Rightarrow> m_senderId msg | Some v \<Rightarrow> v),
       m_sender = (case up_sender updates of None \<Rightarrow> m_sender msg | Some v \<Rightarrow> v),
       m_content = (case up_content updates of None \<Rightarrow> m_content msg | Some v \<Rightarrow> v),
       m_timestamp = (case up_timestamp updates of None \<Rightarrow> m_timestamp msg | Some v \<Rightarrow> v),
       m_status = (case up_status updates of None \<Rightarrow> m_status msg | Some v \<Rightarrow> v) \<rparr>"

definition noUpdates :: MessageUpdates where
  "noUpdates = \<lparr> up_id = None, up_chatId = None, up_senderId = None, up_sender = None,
                 up_content = None, up_timestamp = None, up_status = None \<rparr>"

text \<open>
  \<^verbatim>\<open>chatReducer(state, action)\<close>. The extra argument \<open>now\<close> is what \<^verbatim>\<open>Date.now()\<close>
  returns while the reducer runs. Console logging and the \<^verbatim>\<open>messageEmitter\<close>
  notification do not touch the state and are left out.
\<close>

fun chatReducer :: "int \<Rightarrow> ChatState \<Rightarrow> ChatAction \<Rightarrow> ChatState" where
  "chatReducer now state (SET_CHATS cs) = state\<lparr> chats := cs \<rparr>"
| "chatReducer now state (SET_ACTIVE_CHAT c) = state\<lparr> activeChat := c \<rparr>"
| "chatReducer now state (ADD_CHAT c) = state\<lparr> chats := c # chats state \<rparr>"
| "chatReducer now state (REMOVE_CHAT cid) =
     state\<lparr> chats := filter (\<lambda>chat. c_id chat \<noteq> cid) (chats state),
            activeChat := (case activeChat state of
                             None \<Rightarrow> None
                           | Some a \<Rightarrow> if c_id a = cid then None else Some a) \<rparr>"
| "chatReducer now state (SET_MESSAGES cid ms) =
     state\<lparr> messages := (messages state)(cid \<mapsto> ms) \<rparr>"
| "chatReducer now state (ADD_MESSAGE payload) =
     (let chatId = payloadChatId payload;
          currentMessages = listOrEmpty (messages state chatId);
          newMessage = ensureSender (toMessage now payload)
      in if messageExists currentMessages newMessage then state
         else state\<lparr> messages := (messages state)(chatId \<mapsto> currentMessages @ [newMessage]),
                     messageUpdateTrigger := messageUpdateTrigger state + 1 \<rparr>)"
| "chatReducer now state (UPDATE_MESSAGE updateChatId messageId updates) =
     (let chatMessages = listOrEmpty (messages state updateChatId);
          updatedMessages =
            map (\<lambda>msg. if m_id msg = NumId messageId then applyUpdates updates msg else msg)
              chatMessages
      in state\<lparr> messages := (messages state)(updateChatId \<mapsto> updatedMessages) \<rparr>)"
| "chatReducer now state (SET_ONLINE_USERS us) = state\<lparr> onlineUsers := us \<rparr>"
| "chatReducer now state (USER_ONLINE u) =
     (case find (\<lambda>x. o_userId x = o_userId u) (onlineUsers state) of
        Some _ \<Rightarrow> state
      | None \<Rightarrow> state\<lparr> onlineUsers := onlineUsers state @ [u] \<rparr>)"
| "chatReducer now state (USER_OFFLINE uid) =
     state\<lparr> onlineUsers := filter (\<lambda>x. o_userId x \<noteq> uid) (onlineUsers state) \<rparr>"
| "chatReducer now state (SET_TYPING cid us) =
     state\<lparr> typingUsers := (typingUsers state)(cid \<mapsto> us) \<rparr>"
| "chatReducer now state (INCREMENT_UNREAD cid) =
     state\<lparr> unreadCounts := (unreadCounts state)(cid \<mapsto> numberOrZero (unreadCounts state cid) + 1) \<rparr>"
| "chatReducer now state (CLEAR_UNREAD cid) =
     state\<lparr> unreadCounts := (unreadCounts state)(cid \<mapsto> 0) \<rparr>"
| "chatReducer now state (SET_CONNECTION_STATUS b) = state\<lparr> isConnected := b \<rparr>"
| "chatReducer now state (SET_LOADING b) = state\<lparr> isLoading := b \<rparr>"

section \<open>Event handlers and commands of the provider\<close>

text \<open>
  What the handlers read besides the store: the signed-in user, the ref that mirrors
  \<^verbatim>\<open>state.activeChat\<close> (lines 245--250) and whether a notification callback is
  registered in \<^verbatim>\<open>newMessageCallbackRef\<close>.
\<close>

record ProviderEnv =
  user :: User
  activeChatRef :: "Chat option"
  newMessageCallbackRef :: bool

text \<open>
  Lines 259--307. The handler returns the store after its dispatches, the dispatches it
  schedules with \<^verbatim>\<open>setTimeout\<close>, and the arguments of each call of the notification
  callback.
\<close>

record ReceiveOutcome =
  r_state :: ChatState
  r_deferred :: "ChatAction list"
  r_notified :: "(int \<times> string \<times> string) list"

definition onReceiveMessage :: "ProviderEnv \<Rightarrow> int \<Rightarrow> MessageData \<Rightarrow> ChatState \<Rightarrow> ReceiveOutcome" where
  "onReceiveMessage env now messageData state =
     (let isActiveChat = (case activeChatRef env of
                            None \<Rightarrow> False
                          | Some c \<Rightarrow> d_chatId messageData = c_id c);
          isOwnMessage = (d_senderId messageData = u_id (user env));
          added = chatReducer now state (ADD_MESSAGE (Event messageData));
          deferred = (if isActiveChat then [SET_LOADING False] else []);
          counted = (if \<not> isActiveChat \<and> \<not> isOwnMessage
                     then chatReducer now added (INCREMENT_UNREAD (d_chatId messageData))
                     else added);
          notified = (if \<not> isActiveChat \<and> \<not> isOwnMessage \<and> newMessageCallbackRef env
                      then [(d_chatId messageData,
                             js_or_default (d_senderUsername messageData)
                               (userPlaceholder (d_senderId messageData)),
                             d_content messageData)]
                      else [])
      in \<lparr> r_state = counted, r_deferred = deferred, r_notified = notified \<rparr>)"

text \<open>
  Lines 319--337. The closure reads \<^verbatim>\<open>state.typingUsers\<close> of the render in which the
  effect ran (\<open>captured\<close>); the dispatch acts on the current store. A missing
  \<^verbatim>\<open>chatId\<close> is \<open>None\<close>.
\<close>

definition onUserTyping ::
  "ChatState \<Rightarrow> int \<Rightarrow> int \<Rightarrow> string \<Rightarrow> bool \<Rightarrow> int option \<Rightarrow> ChatState \<Rightarrow> ChatState" where
  "onUserTyping captured now userId username isTyping chatId state =
     (case chatId of
        None \<Rightarrow> state
      | Some cid \<Rightarrow>
          if cid = 0 then state
          else
            (let currentTyping = listOrEmpty (typingUsers captured cid);
                 newTyping =
                   (if isTyping
                    then (case find (\<lambda>u. t_userId u = userId) currentTyping of
                            None \<Rightarrow> currentTyping @ [\<lparr> t_userId = userId, t_username = username,
                                                        t_isTyping = isTyping \<rparr>]
                          | Some _ \<Rightarrow> currentTyping)
                    else filter (\<lambda>u. t_userId u \<noteq> userId) currentTyping)
             in chatReducer now state (SET_TYPING cid newTyping)))"

text \<open>
  \<^verbatim>\<open>sendMessage\<close>, lines 392--461. \<open>tempId\<close> is the reading of \<^verbatim>\<open>Date.now()\<close> on
  line 394 and \<open>stamp\<close> the one of \<^verbatim>\<open>new Date()\<close> on line 406.
\<close>

definition tempMessage :: "User \<Rightarrow> int \<Rightarrow> string \<Rightarrow> int \<Rightarrow> int \<Rightarrow> Message" where
  "tempMessage usr chatId content tempId stamp =
     \<lparr> m_id = NumId tempId, m_chatId = chatId, m_senderId = u_id usr, m_sender = Some usr,
       m_content = content, m_timestamp = Some stamp, m_status = ''sent'' \<rparr>"

text \<open>Up to the \<^verbatim>\<open>await\<close>: the optimistic message is dispatched (line 411).\<close>

definition sendMessage_echo :: "User \<Rightarrow> int \<Rightarrow> string \<Rightarrow> int \<Rightarrow> int \<Rightarrow> ChatState \<Rightarrow> ChatState" where
  "sendMessage_echo usr chatId content tempId stamp state =
     chatReducer tempId state (ADD_MESSAGE (Full (tempMessage usr chatId content tempId stamp)))"

text \<open>
  After the \<^verbatim>\<open>await\<close>: the gateway answered with the saved message or threw. The
  result is the store and the error thrown to the caller, if any.
\<close>

definition sendMessage_settle :: "int \<Rightarrow> int \<Rightarrow> error + Message \<Rightarrow> ChatState \<Rightarrow> ChatState \<times> error option" where
  "sendMessage_settle chatId tempId response state =
     (case response of
        Inr savedMessage \<Rightarrow>
          (if m_id savedMessage \<noteq> NumId tempId
           then chatReducer tempId state
                  (UPDATE_MESSAGE chatId tempId
                     (noUpdates\<lparr> up_id := Some (m_id savedMessage),
                                up_timestamp := Some (m_timestamp savedMessage),
                                up_status := Some (m_status savedMessage) \<rparr>))
           else state,
           None)
      | Inl e \<Rightarrow>
          (chatReducer tempId state
             (UPDATE_MESSAGE chatId tempId (noUpdates\<lparr> up_status := Some ''failed'' \<rparr>)),
           Some e))"

text \<open>
  The whole command. While the request is pending other handlers run; \<open>during\<close> is
  what they do to the store. \<open>so_requests\<close> lists the calls of
  \<^verbatim>\<open>chatService.sendMessage(chatId, senderId, content)\<close> the command makes: the one on
  line 414, in either outcome.
\<close>

record SendOutcome =
  so_state :: ChatState
  so_raised :: "error option"
  so_requests :: "(int \<times> int \<times> string) list"

definition sendMessage ::
  "User \<Rightarrow> int \<Rightarrow> string \<Rightarrow> int \<Rightarrow> int \<Rightarrow> (ChatState \<Rightarrow> ChatState) \<Rightarrow> error + Message
     \<Rightarrow> ChatState \<Rightarrow> SendOutcome" where
  "sendMessage usr chatId content tempId stamp during response state =
     (let echoed = sendMessage_echo usr chatId content tempId stamp state;
          settled = sendMessage_settle chatId tempId response (during echoed)
      in \<lparr> so_state = fst settled, so_raised = snd settled,
           so_requests = [(chatId, u_id usr, content)] \<rparr>)"

text \<open>\<^verbatim>\<open>deleteChat\<close>, lines 542--551: the store and the error re-thrown, if any.\<close>

definition deleteChat :: "int \<Rightarrow> int \<Rightarrow> error + unit \<Rightarrow> ChatState \<Rightarrow> ChatState \<times> error option" where
  "deleteChat now chatId response state =
     (case response of
        Inr _ \<Rightarrow> (chatReducer now state (REMOVE_CHAT chatId), None)
      | Inl e \<Rightarrow> (state, Some e))"

section \<open>Display name of a chat\<close>

text \<open>\<^verbatim>\<open>getChatDisplayName\<close>, \<^verbatim>\<open>chatUtils.ts\<close> lines 30--43.\<close>

definition getChatDisplayName :: "Chat \<Rightarrow> int \<Rightarrow> string" where
  "getChatDisplayName chat currentUserId =
     (if c_type chat = Group then c_name chat
      else (case find (\<lambda>p. p_userId p \<noteq> currentUserId) (c_participants chat) of
              Some otherParticipant \<Rightarrow>
                js_or_default
                  (js_or (map_option u_username (p_user otherParticipant))
                     (p_username otherParticipant))
                  ''Unknown User''
            | None \<Rightarrow> ''Unknown User''))"

section \<open>Sample data\<close>

text \<open>Two users, chat 7 and a few messages, used to run the definitions on concrete inputs.\<close>

definition alice :: User where
  "alice = \<lparr> u_id = 1, u_username = ''alice'', u_createdAt = [] \<rparr>"

definition bob :: User where
  "bob = \<lparr> u_id = 2, u_username = ''bob'', u_createdAt = [] \<rparr>"

definition aliceIn7 :: ChatParticipant where
  "aliceIn7 = \<lparr> p_chatId = 7, p_userId = 1, p_joinedAt = [], p_user = Some alice,
                p_username = Some ''alice'' \<rparr>"

definition bobIn7 :: ChatParticipant where
  "bobIn7 = \<lparr> p_chatId = 7, p_userId = 2, p_joinedAt = [], p_user = Some bob,
              p_username = Some ''bob'' \<rparr>"

definition carolIn7 :: ChatParticipant where
  "carolIn7 = \<lparr> p_chatId = 7, p_userId = 3, p_joinedAt = [], p_user = None,
                p_username = Some ''carol'' \<rparr>"

definition chat7 :: Chat where
  "chat7 = \<lparr> c_id = 7, c_name = [], c_type = Direct, c_createdAt = [],
             c_participants = [aliceIn7, bobIn7] \<rparr>"

definition team9 :: Chat where
  "team9 = \<lparr> c_id = 9, c_name = ''team'', c_type = Group, c_createdAt = [],
             c_participants = [aliceIn7, bobIn7] \<rparr>"

text \<open>Alice sends "hello" to chat 7 at clock reading 1000; the server stores it as 555.\<close>

definition helloEcho :: Message where
  "helloEcho = tempMessage alice 7 ''hello'' 1000 1000"

definition savedHello :: Message where
  "savedHello = \<lparr> m_id = NumId 555, m_chatId = 7, m_senderId = 1, m_sender = Some alice,
                  m_content = ''hello'', m_timestamp = Some 1100, m_status = ''delivered'' \<rparr>"

text \<open>The realtime copy of that message, stamped 200ms after the optimistic one.\<close>

definition helloEvent :: MessageData where
  "helloEvent = \<lparr> d_id = NumId 555, d_chatId = 7, d_senderId = 1,
                  d_senderUsername = Some ''alice'', d_content = ''hello'',
                  d_timestamp = Some 1200, d_status = ''sent'' \<rparr>"

text \<open>A realtime message from Bob whose id arrives as a string.\<close>

definition hiEvent :: MessageData where
  "hiEvent = \<lparr> d_id = StrId ''a1'', d_chatId = 7, d_senderId = 2,
               d_senderUsername = Some ''bob'', d_content = ''hi'',
               d_timestamp = Some 5000, d_status = ''sent'' \<rparr>"

definition hiMessage :: "int \<Rightarrow> int \<Rightarrow> Message" where
  "hiMessage ident ms =
     \<lparr> m_id = NumId ident, m_chatId = 7, m_senderId = 2, m_sender = Some bob,
       m_content = ''hi'', m_timestamp = Some ms, m_status = ''sent'' \<rparr>"

definition aliceEnv :: "Chat option \<Rightarrow> ProviderEnv" where
  "aliceEnv active = \<lparr> user = alice, activeChatRef = active, newMessageCallbackRef = True \<rparr>"

definition withTimeline :: "Message list \<Rightarrow> ChatState" where
  "withTimeline ms = initialState\<lparr> chats := [chat7, team9], activeChat := Some chat7,
                                    messages := [7 \<mapsto> ms] \<rparr>"

section \<open>Facts about the reducer\<close>

lemma messageExists_iff: "messageExists ms n = (\<exists>m\<in>set ms. isDuplicateOf n m)"
  by (simp add: messageExists_def list_ex_iff)

lemma UPDATE_MESSAGE_timeline:
  "listOrEmpty (messages (chatReducer now state (UPDATE_MESSAGE chatId messageId updates)) chatId)
     = map (\<lambda>msg. if m_id msg = NumId messageId then applyUpdates updates msg else msg)
         (listOrEmpty (messages state chatId))"
  by (simp add: Let_def listOrEmpty_def)

lemma fuzzy_branch:
  assumes "\<not> (isPositiveNumber (m_id msg) \<and> isPositiveNumber (m_id newMessage))"
    and "m_senderId msg = m_senderId newMessage"
    and "m_content msg = m_content newMessage"
    and "m_timestamp msg = Some t" and "m_timestamp newMessage = Some t'"
  shows "isDuplicateOf newMessage msg = (\<bar>t - t'\<bar> < 500)"
  using assms by (auto simp add: isDuplicateOf_def timeClose_def)

lemma find_other_of_two:
  "p_userId self = cur \<Longrightarrow> p_userId other \<noteq> cur \<Longrightarrow>
   ps = [self, other] \<or> ps = [other, self] \<Longrightarrow>
   find (\<lambda>p. p_userId p \<noteq> cur) ps = Some other"
  by auto

lemma echo_on_empty_store:
  "listOrEmpty (messages (sendMessage_echo alice 7 ''hello'' 1000 1000 initialState) 7) = [helloEcho]"
  by (simp add: sendMessage_echo_def initialState_def helloEcho_def Let_def payloadChatId_def
      listOrEmpty_def messageExists_def toMessage_def ensureSender_def tempMessage_def)

text \<open>
  A realtime event whose id is a positive number is absorbed when it is delivered again,
  whatever the clock says: the first delivery either found a duplicate (and so does the
  second) or appended a message with that very id.
\<close>

lemma replay_numeric_id:
  assumes "isPositiveNumber (d_id d)"
  shows "chatReducer now' (chatReducer now state (ADD_MESSAGE (Event d))) (ADD_MESSAGE (Event d))
           = chatReducer now state (ADD_MESSAGE (Event d))"
proof -
  have same: "toMessage now' (Event d) = toMessage now (Event d)"
    using assms by (cases "d_id d") (simp_all add: toMessage_def isPositiveNumber_def)
  have self: "isDuplicateOf (ensureSender (toMessage now (Event d)))
                (ensureSender (toMessage now (Event d)))"
    using assms
    by (cases "d_id d")
      (simp_all add: isDuplicateOf_def isPositiveNumber_def toMessage_def ensureSender_def)
  show ?thesis
    using self unfolding chatReducer.simps Let_def same
    by (auto simp add: messageExists_iff listOrEmpty_def payloadChatId_def)
qed

section \<open>The realtime copy of a message just sent\<close>

text \<open>
  C1. After \<^verbatim>\<open>sendMessage(7, "hello")\<close> has put its optimistic message on the timeline,
  a realtime event for chat 7 with the same content and sender, stamped within 400ms of
  it, should leave the timeline at length 1. Run on the code: Alice sends at clock
  reading 1000, so the optimistic message has id 1000; the event carries the server's id
  555 and the stamp 1200. Both ids are positive numbers, the test compares ids only, and
  the event is appended: the timeline has length 2.
\<close>

theorem realtime_echo_appended:
  "listOrEmpty (messages (sendMessage_echo alice 7 ''hello'' 1000 1000 initialState) 7) = [helloEcho]
   \<and> m_senderId helloEcho = d_senderId helloEvent
   \<and> m_content helloEcho = d_content helloEvent
   \<and> m_timestamp helloEcho = Some 1000 \<and> d_timestamp helloEvent = Some 1200
   \<and> length (listOrEmpty (messages (r_state
        (onReceiveMessage (aliceEnv (Some chat7)) 1250 helloEvent
           (sendMessage_echo alice 7 ''hello'' 1000 1000 initialState))) 7)) = 2"
  by (simp add: sendMessage_echo_def initialState_def helloEcho_def tempMessage_def Let_def
      payloadChatId_def listOrEmpty_def messageExists_def toMessage_def ensureSender_def
      onReceiveMessage_def aliceEnv_def chat7_def helloEvent_def isDuplicateOf_def
      isPositiveNumber_def alice_def)

section \<open>Replay of a realtime event\<close>

text \<open>
  C2. Delivering the same message-received event twice in a row should leave one message
  on the timeline. Run on the code: Bob's event has a string id, so each delivery gives
  it the clock reading as id; delivered at 1000 and again at 1001 to the empty store, the
  two ids are positive and differ, and the timeline of chat 7 holds two messages.
\<close>

theorem replayed_event_appended_twice:
  "map m_id (listOrEmpty (messages (r_state
      (onReceiveMessage (aliceEnv None) 1001 hiEvent
         (r_state (onReceiveMessage (aliceEnv None) 1000 hiEvent initialState)))) 7))
     = [NumId 1000, NumId 1001]"
  by (simp add: initialState_def Let_def payloadChatId_def listOrEmpty_def messageExists_def
      toMessage_def ensureSender_def onReceiveMessage_def aliceEnv_def hiEvent_def
      isDuplicateOf_def isPositiveNumber_def alice_def)

section \<open>The deduplication test\<close>

text \<open>
  C3. When the incoming message and a message of the timeline both have a positive numeric
  id, the test answers "same message" exactly when the ids are equal; content, sender and
  timestamp play no part.
\<close>

theorem id_match_precedence:
  assumes "m_id msg = NumId a" and "m_id newMessage = NumId b" and "0 < a" and "0 < b"
  shows "isDuplicateOf newMessage msg = (a = b)"
  using assms by (simp add: isDuplicateOf_def isPositiveNumber_def)

theorem id_match_precedence_witness:
  "isDuplicateOf (hiMessage 555 5000) savedHello
   \<and> \<not> isDuplicateOf (hiMessage 42 5000) (hiMessage 41 5000)"
proof -
  have "isDuplicateOf (hiMessage 555 5000) savedHello = ((555::int) = 555)"
    by (rule id_match_precedence) (simp_all add: hiMessage_def savedHello_def)
  moreover have "isDuplicateOf (hiMessage 42 5000) (hiMessage 41 5000) = ((41::int) = 42)"
    by (rule id_match_precedence) (simp_all add: hiMessage_def)
  ultimately show ?thesis by simp
qed

text \<open>
  C5. When the id comparison does not apply (the two ids are not both positive numbers),
  an incoming message with the sender and content of a message \<open>msg\<close> of the timeline is
  dropped if their timestamps are less than 500ms apart: the store is unchanged. If they
  are 501ms apart and \<open>msg\<close> is the whole timeline, the incoming message is appended and
  both are kept.
\<close>

theorem fuzzy_match_window:
  fixes state :: ChatState and now :: int and payload :: MessagePayload
  defines "newMessage \<equiv> ensureSender (toMessage now payload)"
  defines "chatId \<equiv> payloadChatId payload"
  assumes fuzzy: "\<not> (isPositiveNumber (m_id msg) \<and> isPositiveNumber (m_id newMessage))"
    and sender: "m_senderId msg = m_senderId newMessage"
    and content: "m_content msg = m_content newMessage"
    and t: "m_timestamp msg = Some t" and t': "m_timestamp newMessage = Some t'"
  shows "(\<bar>t - t'\<bar> < 500 \<and> msg \<in> set (listOrEmpty (messages state chatId))
            \<longrightarrow> chatReducer now state (ADD_MESSAGE payload) = state)
       \<and> (\<bar>t - t'\<bar> = 501 \<and> messages state chatId = Some [msg]
            \<longrightarrow> messages (chatReducer now state (ADD_MESSAGE payload)) chatId
                  = Some [msg, newMessage])"
proof -
  have dup: "isDuplicateOf newMessage msg = (\<bar>t - t'\<bar> < 500)"
    using fuzzy sender content t t' by (rule fuzzy_branch)
  show ?thesis
    using dup unfolding newMessage_def chatId_def
    by (auto simp add: messageExists_iff Let_def listOrEmpty_def)
qed

theorem fuzzy_match_window_witness:
  "chatReducer 0 (withTimeline [hiMessage 0 5000]) (ADD_MESSAGE (Full (hiMessage 0 5499)))
     = withTimeline [hiMessage 0 5000]
   \<and> messages (chatReducer 0 (withTimeline [hiMessage 0 5000])
        (ADD_MESSAGE (Full (hiMessage 0 5501)))) 7
     = Some [hiMessage 0 5000, hiMessage 0 5501]"
proof -
  have "chatReducer 0 (withTimeline [hiMessage 0 5000]) (ADD_MESSAGE (Full (hiMessage 0 5499)))
     = withTimeline [hiMessage 0 5000]"
    using fuzzy_match_window [where msg = "hiMessage 0 5000" and now = 0
        and payload = "Full (hiMessage 0 5499)" and t = 5000 and t' = 5499
        and state = "withTimeline [hiMessage 0 5000]"]
    by (simp add: hiMessage_def toMessage_def ensureSender_def payloadChatId_def
        isPositiveNumber_def withTimeline_def listOrEmpty_def del: chatReducer.simps)
  moreover have "messages (chatReducer 0 (withTimeline [hiMessage 0 5000])
        (ADD_MESSAGE (Full (hiMessage 0 5501)))) 7
     = Some [hiMessage 0 5000, hiMessage 0 5501]"
    using fuzzy_match_window [where msg = "hiMessage 0 5000" and now = 0
        and payload = "Full (hiMessage 0 5501)" and t = 5000 and t' = 5501
        and state = "withTimeline [hiMessage 0 5000]"]
    by (simp add: hiMessage_def toMessage_def ensureSender_def payloadChatId_def
        isPositiveNumber_def withTimeline_def listOrEmpty_def del: chatReducer.simps)
  ultimately show ?thesis by simp
qed

section \<open>Sending a message\<close>

text \<open>
  C4. Whatever happened to the store while the request was pending, if the timeline of
  the chat holds the optimistic message at position \<open>i\<close> when the gateway answers with a
  saved message whose id differs from the provisional id, then after \<^verbatim>\<open>sendMessage\<close>
  the timeline has the same length, position \<open>i\<close> holds that message with the id,
  timestamp and status of the saved one, every entry with another id is untouched, and
  nothing is thrown.
\<close>

theorem optimistic_rewrite_in_place:
  fixes during :: "ChatState \<Rightarrow> ChatState" and usr :: User and chatId tempId stamp :: int
    and content :: string and state :: ChatState and savedMessage :: Message
  defines "optimistic \<equiv> tempMessage usr chatId content tempId stamp"
  defines "pending \<equiv> during (sendMessage_echo usr chatId content tempId stamp state)"
  defines "out \<equiv> sendMessage usr chatId content tempId stamp during (Inr savedMessage) state"
  defines "timeline \<equiv> listOrEmpty (messages pending chatId)"
  defines "timeline' \<equiv> listOrEmpty (messages (so_state out) chatId)"
  assumes differs: "m_id savedMessage \<noteq> NumId tempId"
    and pos: "i < length timeline"
    and present: "timeline ! i = optimistic"
  shows "length timeline' = length timeline
       \<and> timeline' ! i = optimistic\<lparr> m_id := m_id savedMessage,
                                       m_timestamp := m_timestamp savedMessage,
                                       m_status := m_status savedMessage \<rparr>
       \<and> (\<forall>j < length timeline.
             m_id (timeline ! j) \<noteq> NumId tempId \<longrightarrow> timeline' ! j = timeline ! j)
       \<and> so_raised out = None"
proof -
  let ?upd = "noUpdates\<lparr> up_id := Some (m_id savedMessage),
                          up_timestamp := Some (m_timestamp savedMessage),
                          up_status := Some (m_status savedMessage) \<rparr>"
  have state: "so_state out = chatReducer tempId pending (UPDATE_MESSAGE chatId tempId ?upd)"
    and raised: "so_raised out = None"
    using differs
    by (simp_all add: out_def pending_def sendMessage_def sendMessage_settle_def Let_def
        del: chatReducer.simps)
  have tl: "timeline' = map (\<lambda>msg. if m_id msg = NumId tempId then applyUpdates ?upd msg else msg)
                          timeline"
    unfolding timeline'_def timeline_def state by (rule UPDATE_MESSAGE_timeline)
  have "m_id optimistic = NumId tempId"
    by (simp add: optimistic_def tempMessage_def)
  then have "timeline' ! i = applyUpdates ?upd optimistic"
    using pos present by (simp add: tl)
  also have "\<dots> = optimistic\<lparr> m_id := m_id savedMessage,
                                m_timestamp := m_timestamp savedMessage,
                                m_status := m_status savedMessage \<rparr>"
    by (simp add: applyUpdates_def noUpdates_def)
  finally have at_i: "timeline' ! i = optimistic\<lparr> m_id := m_id savedMessage,
                                                  m_timestamp := m_timestamp savedMessage,
                                                  m_status := m_status savedMessage \<rparr>" .
  have len: "length timeline' = length timeline"
    by (simp add: tl)
  have others: "\<forall>j < length timeline.
                  m_id (timeline ! j) \<noteq> NumId tempId \<longrightarrow> timeline' ! j = timeline ! j"
    by (simp add: tl)
  from len at_i others raised show ?thesis by blast
qed

theorem optimistic_rewrite_in_place_witness:
  "listOrEmpty (messages (sendMessage_echo alice 7 ''hello'' 1000 1000 initialState) 7) = [helloEcho]
   \<and> m_id savedHello \<noteq> NumId 1000
   \<and> listOrEmpty (messages (so_state (sendMessage alice 7 ''hello'' 1000 1000 (\<lambda>s. s)
         (Inr savedHello) initialState)) 7)
       = [helloEcho\<lparr> m_id := NumId 555, m_timestamp := Some 1100, m_status := ''delivered'' \<rparr>]
   \<and> so_raised (sendMessage alice 7 ''hello'' 1000 1000 (\<lambda>s. s) (Inr savedHello) initialState)
       = None"
proof -
  let ?out = "sendMessage alice 7 ''hello'' 1000 1000 (\<lambda>s. s) (Inr savedHello) initialState"
  let ?after = "listOrEmpty (messages (so_state ?out) 7)"
  note tl = echo_on_empty_store
  have differs: "m_id savedHello \<noteq> NumId 1000"
    by (simp add: savedHello_def)
  have "length ?after = 1
      \<and> ?after ! 0 = helloEcho\<lparr> m_id := NumId 555, m_timestamp := Some 1100,
                                 m_status := ''delivered'' \<rparr>
      \<and> so_raised ?out = None"
    using differs
      optimistic_rewrite_in_place [where during = "\<lambda>s. s" and usr = alice and chatId = 7
        and content = "''hello''" and tempId = 1000 and stamp = 1000 and state = initialState
        and savedMessage = savedHello and i = 0]
    by (simp add: tl helloEcho_def savedHello_def)
  then show ?thesis
    using tl differs by (cases ?after) simp_all
qed

text \<open>
  C8, as the code has it. If the gateway throws, \<^verbatim>\<open>sendMessage\<close> leaves the timeline
  of the chat with the length it had at that moment and every entry with an id other
  than the provisional one untouched, throws the error to the caller, and has made its
  one request to the gateway and no other. If the optimistic message is still on the
  timeline at that moment, at position \<open>i\<close>, it stays at position \<open>i\<close> with status
  \<^verbatim>\<open>failed\<close> and nothing else changed.
\<close>

theorem failed_send_marked_in_place:
  fixes during :: "ChatState \<Rightarrow> ChatState" and usr :: User and chatId tempId stamp :: int
    and content :: string and state :: ChatState and e :: error
  defines "optimistic \<equiv> tempMessage usr chatId content tempId stamp"
  defines "pending \<equiv> during (sendMessage_echo usr chatId content tempId stamp state)"
  defines "out \<equiv> sendMessage usr chatId content tempId stamp during (Inl e) state"
  defines "timeline \<equiv> listOrEmpty (messages pending chatId)"
  defines "timeline' \<equiv> listOrEmpty (messages (so_state out) chatId)"
  shows "length timeline' = length timeline
       \<and> (\<forall>j < length timeline.
             m_id (timeline ! j) \<noteq> NumId tempId \<longrightarrow> timeline' ! j = timeline ! j)
       \<and> so_raised out = Some e
       \<and> so_requests out = [(chatId, u_id usr, content)]
       \<and> (i < length timeline \<and> timeline ! i = optimistic
            \<longrightarrow> timeline' ! i = optimistic\<lparr> m_status := ''failed'' \<rparr>)"
proof -
  let ?upd = "noUpdates\<lparr> up_status := Some ''failed'' \<rparr>"
  have state: "so_state out = chatReducer tempId pending (UPDATE_MESSAGE chatId tempId ?upd)"
    and raised: "so_raised out = Some e"
    and requests: "so_requests out = [(chatId, u_id usr, content)]"
    by (simp_all add: out_def pending_def sendMessage_def sendMessage_settle_def Let_def
        del: chatReducer.simps)
  have tl: "timeline' = map (\<lambda>msg. if m_id msg = NumId tempId then applyUpdates ?upd msg else msg)
                          timeline"
    unfolding timeline'_def timeline_def state by (rule UPDATE_MESSAGE_timeline)
  have len: "length timeline' = length timeline"
    by (simp add: tl)
  have others: "\<forall>j < length timeline.
                  m_id (timeline ! j) \<noteq> NumId tempId \<longrightarrow> timeline' ! j = timeline ! j"
    by (simp add: tl)
  have at_i: "timeline' ! i = optimistic\<lparr> m_status := ''failed'' \<rparr>"
    if pos: "i < length timeline" and present: "timeline ! i = optimistic"
  proof -
    have "m_id optimistic = NumId tempId"
      by (simp add: optimistic_def tempMessage_def)
    then have "timeline' ! i = applyUpdates ?upd optimistic"
      using pos present by (simp add: tl)
    also have "\<dots> = optimistic\<lparr> m_status := ''failed'' \<rparr>"
      by (simp add: applyUpdates_def noUpdates_def)
    finally show ?thesis .
  qed
  from len others raised requests at_i show ?thesis by blast
qed

theorem failed_send_marked_in_place_witness:
  "listOrEmpty (messages (sendMessage_echo alice 7 ''hello'' 1000 1000 initialState) 7) = [helloEcho]
   \<and> listOrEmpty (messages (so_state (sendMessage alice 7 ''hello'' 1000 1000 (\<lambda>s. s)
         (Inl (Error ''503'')) initialState)) 7)
       = [helloEcho\<lparr> m_status := ''failed'' \<rparr>]
   \<and> so_raised (sendMessage alice 7 ''hello'' 1000 1000 (\<lambda>s. s) (Inl (Error ''503'')) initialState)
       = Some (Error ''503'')
   \<and> so_requests (sendMessage alice 7 ''hello'' 1000 1000 (\<lambda>s. s) (Inl (Error ''503'')) initialState)
       = [(7, 1, ''hello'')]"
proof -
  let ?out = "sendMessage alice 7 ''hello'' 1000 1000 (\<lambda>s. s) (Inl (Error ''503'')) initialState"
  let ?after = "listOrEmpty (messages (so_state ?out) 7)"
  note tl = echo_on_empty_store
  have "length ?after = 1
      \<and> ?after ! 0 = helloEcho\<lparr> m_status := ''failed'' \<rparr>
      \<and> so_raised ?out = Some (Error ''503'')
      \<and> so_requests ?out = [(7, u_id alice, ''hello'')]"
    using failed_send_marked_in_place [where during = "\<lambda>s. s" and usr = alice and chatId = 7
        and content = "''hello''" and tempId = 1000 and stamp = 1000 and state = initialState
        and e = "Error ''503''" and i = 0]
    by (simp add: tl helloEcho_def)
  then show ?thesis
    using tl by (cases ?after) (simp_all add: alice_def)
qed

text \<open>
  C8 as stated fails. Alice sends "hello" to chat 7; while the request is pending the
  history of chat 7 arrives (\<^verbatim>\<open>loadMessages\<close> dispatches \<^verbatim>\<open>SET_MESSAGES\<close>, which
  replaces the timeline) and holds one message of Bob's; then the gateway throws. The
  timeline is that one message: the optimistic message is not on it, and no entry is
  marked \<^verbatim>\<open>failed\<close>.
\<close>

theorem failed_send_lost_after_reload:
  "listOrEmpty (messages (sendMessage_echo alice 7 ''hello'' 1000 1000 initialState) 7) = [helloEcho]
   \<and> listOrEmpty (messages (so_state (sendMessage alice 7 ''hello'' 1000 1000
         (\<lambda>s. chatReducer 1050 s (SET_MESSAGES 7 [hiMessage 41 900]))
         (Inl (Error ''503'')) initialState)) 7)
       = [hiMessage 41 900]
   \<and> hiMessage 41 900 \<noteq> helloEcho\<lparr> m_status := ''failed'' \<rparr>
   \<and> m_status (hiMessage 41 900) \<noteq> ''failed''"
  by (simp add: sendMessage_def sendMessage_settle_def sendMessage_echo_def initialState_def
      helloEcho_def tempMessage_def Let_def payloadChatId_def listOrEmpty_def messageExists_def
      toMessage_def ensureSender_def hiMessage_def noUpdates_def applyUpdates_def)

section \<open>Unread counters\<close>

text \<open>
  C6. On a message-received event the handler compares the chat of the event with the
  active chat it sees (\<^verbatim>\<open>activeChatRef\<close>, the mirror of \<^verbatim>\<open>state.activeChat\<close>). If
  they are the same chat, no unread counter changes and the notification callback is not
  called. If they are not and the sender is not the local user, the counter of that chat
  goes up by exactly one (from 0 when it had none), and a registered notification
  callback is called once with the chat id, the sender's display name and the content.
\<close>

theorem unread_on_receive:
  fixes env :: ProviderEnv and now :: int and messageData :: MessageData and state :: ChatState
  defines "out \<equiv> onReceiveMessage env now messageData state"
  defines "chatId \<equiv> d_chatId messageData"
  shows "((\<exists>c. activeChatRef env = Some c \<and> c_id c = chatId)
            \<longrightarrow> unreadCounts (r_state out) = unreadCounts state \<and> r_notified out = [])
       \<and> ((\<forall>c. activeChatRef env = Some c \<longrightarrow> c_id c \<noteq> chatId)
              \<and> d_senderId messageData \<noteq> u_id (user env)
            \<longrightarrow> unreadCounts (r_state out)
                  = (unreadCounts state)(chatId \<mapsto> numberOrZero (unreadCounts state chatId) + 1)
                \<and> (newMessageCallbackRef env
                     \<longrightarrow> r_notified out
                           = [(chatId,
                               js_or_default (d_senderUsername messageData)
                                 (userPlaceholder (d_senderId messageData)),
                               d_content messageData)]))"
  unfolding out_def chatId_def onReceiveMessage_def
  by (cases "activeChatRef env") (auto simp add: Let_def)

theorem unread_on_receive_witness:
  "unreadCounts (r_state (onReceiveMessage (aliceEnv (Some chat7)) 1000 hiEvent initialState)) 7
     = None
   \<and> unreadCounts (r_state (onReceiveMessage (aliceEnv None) 1000 hiEvent initialState)) 7
     = Some 1
   \<and> r_notified (onReceiveMessage (aliceEnv None) 1000 hiEvent initialState)
     = [(7, ''bob'', ''hi'')]
   \<and> unreadCounts (r_state (onReceiveMessage (aliceEnv (Some team9)) 1000 hiEvent
        (r_state (onReceiveMessage (aliceEnv (Some team9)) 1000 hiEvent initialState)))) 7
     = Some 2"
proof -
  let ?once = "r_state (onReceiveMessage (aliceEnv (Some team9)) 1000 hiEvent initialState)"
  have active:
    "unreadCounts (r_state (onReceiveMessage (aliceEnv (Some chat7)) 1000 hiEvent initialState))
       = unreadCounts initialState"
    using unread_on_receive [of "aliceEnv (Some chat7)" hiEvent 1000 initialState]
    by (simp add: aliceEnv_def chat7_def hiEvent_def)
  have other:
    "unreadCounts (r_state (onReceiveMessage (aliceEnv None) 1000 hiEvent initialState))
       = (unreadCounts initialState)(7 \<mapsto> numberOrZero (unreadCounts initialState 7) + 1)
     \<and> r_notified (onReceiveMessage (aliceEnv None) 1000 hiEvent initialState)
       = [(7, ''bob'', ''hi'')]"
    using unread_on_receive [of "aliceEnv None" hiEvent 1000 initialState]
    by (simp add: aliceEnv_def hiEvent_def alice_def js_or_default_def)
  have once:
    "unreadCounts ?once
       = (unreadCounts initialState)(7 \<mapsto> numberOrZero (unreadCounts initialState 7) + 1)"
    using unread_on_receive [of "aliceEnv (Some team9)" hiEvent 1000 initialState]
    by (simp add: aliceEnv_def hiEvent_def alice_def team9_def)
  have twice:
    "unreadCounts (r_state (onReceiveMessage (aliceEnv (Some team9)) 1000 hiEvent ?once))
       = (unreadCounts ?once)(7 \<mapsto> numberOrZero (unreadCounts ?once 7) + 1)"
    using unread_on_receive [of "aliceEnv (Some team9)" hiEvent 1000 ?once]
    by (simp add: aliceEnv_def hiEvent_def alice_def team9_def)
  show ?thesis
    using active other once twice
    by (simp add: initialState_def numberOrZero_def)
qed

section \<open>Deleting a chat\<close>

text \<open>
  C7, as the code has it. If the remote delete succeeds, no chat with that id is left in
  the chat list (the other chats stay, in order), the active selection is cleared if it
  was that chat and kept otherwise, nothing is thrown, and the message timelines are all
  as they were: the timeline of the deleted chat is not cleared. If the remote delete
  throws, the store is unchanged and the error is thrown to the caller.
\<close>

theorem deleteChat_outcome:
  fixes state :: ChatState and now chatId :: int
  defines "deleted \<equiv> deleteChat now chatId (Inr ()) state"
  shows "chats (fst deleted) = filter (\<lambda>c. c_id c \<noteq> chatId) (chats state)
       \<and> (\<forall>c \<in> set (chats (fst deleted)). c_id c \<noteq> chatId)
       \<and> (\<forall>a. activeChat state = Some a \<longrightarrow>
              activeChat (fst deleted) = (if c_id a = chatId then None else Some a))
       \<and> (activeChat state = None \<longrightarrow> activeChat (fst deleted) = None)
       \<and> messages (fst deleted) = messages state
       \<and> snd deleted = None
       \<and> deleteChat now chatId (Inl e) state = (state, Some e)"
  unfolding deleted_def deleteChat_def by auto

theorem deleteChat_outcome_witness:
  "chats (fst (deleteChat 0 7 (Inr ()) (withTimeline [helloEcho]))) = [team9]
   \<and> activeChat (fst (deleteChat 0 7 (Inr ()) (withTimeline [helloEcho]))) = None
   \<and> messages (fst (deleteChat 0 7 (Inr ()) (withTimeline [helloEcho]))) 7 = Some [helloEcho]
   \<and> snd (deleteChat 0 7 (Inr ()) (withTimeline [helloEcho])) = None
   \<and> deleteChat 0 7 (Inl (Error ''503'')) (withTimeline [helloEcho])
       = (withTimeline [helloEcho], Some (Error ''503''))"
  using deleteChat_outcome [of 0 7 "withTimeline [helloEcho]" "Error ''503''"]
  by (simp add: withTimeline_def initialState_def chat7_def team9_def)

text \<open>
  C7 as stated fails: chat 7 is active and has one message; after a successful delete it
  is gone from the list and the selection is cleared, but its timeline is not empty.
\<close>

theorem deleteChat_keeps_timeline:
  "chats (fst (deleteChat 0 7 (Inr ()) (withTimeline [helloEcho]))) = [team9]
   \<and> activeChat (fst (deleteChat 0 7 (Inr ()) (withTimeline [helloEcho]))) = None
   \<and> listOrEmpty (messages (fst (deleteChat 0 7 (Inr ()) (withTimeline [helloEcho]))) 7) \<noteq> []"
  by (simp add: deleteChat_def withTimeline_def initialState_def chat7_def team9_def
      listOrEmpty_def)

section \<open>Display name\<close>

text \<open>
  C9. \<^verbatim>\<open>getChatDisplayName\<close> is a function of the chat and the current user's id.
  For a group chat it is the chat's name. For a direct chat of the current user and one
  other participant, in either order, it is the username of the other participant's
  user record when that is not empty, and failing that the participant's own non-empty
  username field. For a direct chat with no participant other than the current user it
  is the placeholder \<^verbatim>\<open>Unknown User\<close>. The placeholder is not used as long as every
  participant other than the current user resolves to a non-empty username: the result
  is then the username of one of them.
\<close>

theorem getChatDisplayName_spec:
  fixes chat :: Chat and cur :: int
  defines "shown \<equiv> getChatDisplayName chat cur"
  defines "ps \<equiv> c_participants chat"
  shows "(c_type chat = Group \<longrightarrow> shown = c_name chat)
       \<and> (c_type chat = Direct \<and> p_userId self = cur \<and> p_userId other \<noteq> cur
            \<and> (ps = [self, other] \<or> ps = [other, self])
            \<and> p_user other = Some u \<and> u_username u \<noteq> []
            \<longrightarrow> shown = u_username u)
       \<and> (c_type chat = Direct \<and> p_userId self = cur \<and> p_userId other \<noteq> cur
            \<and> (ps = [self, other] \<or> ps = [other, self])
            \<and> (p_user other = None \<or> (\<exists>v. p_user other = Some v \<and> u_username v = []))
            \<and> p_username other = Some n \<and> n \<noteq> []
            \<longrightarrow> shown = n)
       \<and> (c_type chat = Direct \<and> (\<forall>p \<in> set ps. p_userId p = cur)
            \<longrightarrow> shown = ''Unknown User'')
       \<and> (c_type chat = Direct \<and> (\<exists>p \<in> set ps. p_userId p \<noteq> cur)
            \<and> (\<forall>p \<in> set ps. p_userId p \<noteq> cur
                  \<longrightarrow> (\<exists>v. p_user p = Some v \<and> u_username v \<noteq> []))
            \<longrightarrow> (\<exists>p \<in> set ps. p_userId p \<noteq> cur
                   \<and> (\<exists>v. p_user p = Some v \<and> shown = u_username v)))"
proof (intro conjI impI)
  assume "c_type chat = Group"
  then show "shown = c_name chat"
    by (simp add: shown_def getChatDisplayName_def)
next
  assume a: "c_type chat = Direct \<and> p_userId self = cur \<and> p_userId other \<noteq> cur
            \<and> (ps = [self, other] \<or> ps = [other, self])
            \<and> p_user other = Some u \<and> u_username u \<noteq> []"
  then have "find (\<lambda>p. p_userId p \<noteq> cur) (c_participants chat) = Some other"
    unfolding ps_def by (intro find_other_of_two [of self cur other]) auto
  with a show "shown = u_username u"
    by (simp add: shown_def getChatDisplayName_def js_or_def truthy_def js_or_default_def)
next
  assume a: "c_type chat = Direct \<and> p_userId self = cur \<and> p_userId other \<noteq> cur
            \<and> (ps = [self, other] \<or> ps = [other, self])
            \<and> (p_user other = None \<or> (\<exists>v. p_user other = Some v \<and> u_username v = []))
            \<and> p_username other = Some n \<and> n \<noteq> []"
  then have "find (\<lambda>p. p_userId p \<noteq> cur) (c_participants chat) = Some other"
    unfolding ps_def by (intro find_other_of_two [of self cur other]) auto
  with a show "shown = n"
    by (auto simp add: shown_def getChatDisplayName_def js_or_def truthy_def js_or_default_def)
next
  assume a: "c_type chat = Direct \<and> (\<forall>p \<in> set ps. p_userId p = cur)"
  then have "find (\<lambda>p. p_userId p \<noteq> cur) (c_participants chat) = None"
    by (simp add: find_None_iff ps_def)
  with a show "shown = ''Unknown User''"
    by (simp add: shown_def getChatDisplayName_def)
next
  assume a: "c_type chat = Direct \<and> (\<exists>p \<in> set ps. p_userId p \<noteq> cur)
            \<and> (\<forall>p \<in> set ps. p_userId p \<noteq> cur
                  \<longrightarrow> (\<exists>v. p_user p = Some v \<and> u_username v \<noteq> []))"
  then obtain q where q: "find (\<lambda>p. p_userId p \<noteq> cur) ps = Some q"
    by (cases "find (\<lambda>p. p_userId p \<noteq> cur) ps") (auto simp add: find_None_iff)
  then have qin: "q \<in> set ps" and qid: "p_userId q \<noteq> cur"
    by (auto simp add: find_Some_iff)
  with a obtain v where v: "p_user q = Some v" "u_username v \<noteq> []"
    by blast
  have "shown = u_username v"
    using a q v unfolding ps_def
    by (simp add: shown_def getChatDisplayName_def js_or_def truthy_def js_or_default_def)
  with qin qid v
  show "\<exists>p \<in> set ps. p_userId p \<noteq> cur \<and> (\<exists>v. p_user p = Some v \<and> shown = u_username v)"
    by blast
qed

theorem getChatDisplayName_spec_witness:
  "getChatDisplayName team9 1 = ''team''
   \<and> getChatDisplayName chat7 1 = ''bob''
   \<and> getChatDisplayName (chat7\<lparr> c_participants := [bobIn7, aliceIn7] \<rparr>) 1 = ''bob''
   \<and> getChatDisplayName (chat7\<lparr> c_participants := [carolIn7, aliceIn7] \<rparr>) 1 = ''carol''
   \<and> getChatDisplayName (chat7\<lparr> c_participants := [aliceIn7] \<rparr>) 1 = ''Unknown User''
   \<and> getChatDisplayName (chat7\<lparr> c_participants := [aliceIn7, bobIn7, bobIn7] \<rparr>) 1 = ''bob''"
proof -
  have g: "getChatDisplayName team9 1 = ''team''"
    using getChatDisplayName_spec [where chat = team9 and cur = 1]
    by (simp add: team9_def)
  have d1: "getChatDisplayName chat7 1 = ''bob''"
    using getChatDisplayName_spec [where chat = chat7 and cur = 1 and self = aliceIn7
        and other = bobIn7 and u = bob]
    by (simp add: chat7_def aliceIn7_def bobIn7_def bob_def)
  have d2: "getChatDisplayName (chat7\<lparr> c_participants := [bobIn7, aliceIn7] \<rparr>) 1 = ''bob''"
    using getChatDisplayName_spec [where chat = "chat7\<lparr> c_participants := [bobIn7, aliceIn7] \<rparr>"
        and cur = 1 and self = aliceIn7 and other = bobIn7 and u = bob]
    by (simp add: chat7_def aliceIn7_def bobIn7_def bob_def)
  have d3: "getChatDisplayName (chat7\<lparr> c_participants := [carolIn7, aliceIn7] \<rparr>) 1 = ''carol''"
    using getChatDisplayName_spec [where chat = "chat7\<lparr> c_participants := [carolIn7, aliceIn7] \<rparr>"
        and cur = 1 and self = aliceIn7 and other = carolIn7 and n = "''carol''"]
    by (simp add: chat7_def aliceIn7_def carolIn7_def)
  have n: "getChatDisplayName (chat7\<lparr> c_participants := [aliceIn7] \<rparr>) 1 = ''Unknown User''"
    using getChatDisplayName_spec [where chat = "chat7\<lparr> c_participants := [aliceIn7] \<rparr>" and cur = 1]
    by (simp add: chat7_def aliceIn7_def)
  have m: "getChatDisplayName (chat7\<lparr> c_participants := [aliceIn7, bobIn7, bobIn7] \<rparr>) 1 = ''bob''"
    using getChatDisplayName_spec
      [where chat = "chat7\<lparr> c_participants := [aliceIn7, bobIn7, bobIn7] \<rparr>" and cur = 1]
    by (auto simp add: chat7_def aliceIn7_def bobIn7_def bob_def)
  from g d1 d2 d3 n m show ?thesis by simp
qed

section \<open>Typing events without a chat\<close>

text \<open>
  C10. A typing event whose \<^verbatim>\<open>chatId\<close> is missing or 0 leaves the store exactly as it
  was, whatever its user id, username and typing flag, and whatever the store the
  handler's closure captured.
\<close>

theorem typing_without_chat_dropped:
  "onUserTyping captured now userId username isTyping None state = state
   \<and> onUserTyping captured now userId username isTyping (Some 0) state = state"
  by (simp add: onUserTyping_def)

end
